theory Spec2Isabelle
  imports Main "HOL-Library.Word" "HOL-Library.Signed_Division"
begin

section \<open>Integers, durations, instants\<close>

text \<open>
  Go's \<^verbatim>\<open>int\<close> is 64 bits wide on the 64-bit targets; \<^verbatim>\<open>+\<close> wraps around in two's
  complement and the comparisons are signed (\<open><s\<close>, \<open>\<le>s\<close>, read through \<open>sint\<close>).
  \<^verbatim>\<open>time.Duration\<close> is an \<^verbatim>\<open>int64\<close> count of nanoseconds. An instant (\<^verbatim>\<open>time.Time\<close>) is a
  reading of the clock in nanoseconds; every call of \<^verbatim>\<open>time.Now()\<close> in the source is an
  argument \<open>now\<close> of the operation that makes it.
\<close>

type_synonym go_int = "64 word"
type_synonym Duration = "64 word"
type_synonym Time = int

definition maxInt :: go_int where
  "maxInt = 9223372036854775807"

definition minInt :: go_int where
  "minInt = - 9223372036854775808"

definition Second :: Duration where
  "Second = 1000000000"

definition Millisecond :: Duration where
  "Millisecond = 1000000"

text \<open>
  \<^verbatim>\<open>t.Sub(u)\<close> of the standard library: the difference of two instants, and the largest
  (smallest) duration when the difference does not fit one.
\<close>

definition Sub :: "Time \<Rightarrow> Time \<Rightarrow> Duration" where
  "Sub t u =
     (let d = t - u
      in if 9223372036854775807 < d then maxInt
         else if d < - 9223372036854775808 then minInt
         else word_of_int d)"

text \<open>\<^verbatim>\<open>time.Since(t)\<close> is \<^verbatim>\<open>time.Now().Sub(t)\<close>.\<close>

definition Since :: "Time \<Rightarrow> Time \<Rightarrow> Duration" where
  "Since now t = Sub now t"

text \<open>\<^verbatim>\<open>d / time.Second\<close>: Go's integer division truncates towards zero.\<close>

definition seconds_of :: "Duration \<Rightarrow> int" where
  "seconds_of d = sint d sdiv sint Second"

section \<open>Panics\<close>

text \<open>
  A panic of the source is a value. \<open>DivisionByZero\<close> marks a division whose divisor is
  zero: Go's \<^verbatim>\<open>float64\<close> division yields an infinity or a NaN there instead of a panic,
  and the model reports it, so that "no division by zero is performed" is a statement
  about a result.
\<close>

datatype error = NilPointerDereference | NegativeRepeatCount | DivisionByZero

text \<open>\<^verbatim>\<open>strings.Repeat(s, count)\<close> panics on a negative count.\<close>

definition Repeat :: "string \<Rightarrow> go_int \<Rightarrow> error + string" where
  "Repeat s n =
     (if n <s 0 then Inl NegativeRepeatCount
      else Inr (concat (replicate (nat (sint n)) s)))"

section \<open>Floating point, symbolically\<close>

text \<open>
  The \<^verbatim>\<open>float64\<close> values of \<^verbatim>\<open>formatProgressBar\<close> are kept as the expressions that compute
  them: \<open>FZero\<close> is the zero value of \<^verbatim>\<open>var avgSpeed float64\<close>, \<open>FInt i\<close> is \<^verbatim>\<open>float64(i)\<close>
  (also the constants 100 and 1000), \<open>FSeconds d\<close> is \<^verbatim>\<open>d.Seconds()\<close>. Their sign is exact
  (an integer and its conversion have the same sign, and no quotient of this program
  underflows), which is all the branches of the source test. The conversion back to an
  integer, \<^verbatim>\<open>int(x)\<close> and \<^verbatim>\<open>time.Duration(x)\<close>, is the parameter \<open>f2i\<close> of the functions
  below: its value depends on the rounding of every operation.
\<close>

datatype f64 = FZero | FInt go_int | FSeconds Duration | FDiv f64 f64 | FMul f64 f64

fun sign :: "f64 \<Rightarrow> int" where
  "sign FZero = 0"
| "sign (FInt i) = sgn (sint i)"
| "sign (FSeconds d) = sgn (sint d)"
| "sign (FDiv a b) = sign a * sign b"
| "sign (FMul a b) = sign a * sign b"

definition fdiv :: "f64 \<Rightarrow> f64 \<Rightarrow> error + f64" where
  "fdiv a b = (if sign b = 0 then Inl DivisionByZero else Inr (FDiv a b))"

section \<open>The progress bar\<close>

text \<open>
  \<^verbatim>\<open>ProgressBar\<close>; the mutex \<^verbatim>\<open>mu\<close> has no counterpart, every operation below is one
  critical section run to its end.
\<close>

record ProgressBar =
  total :: go_int
  current :: go_int
  barLength :: go_int
  startTime :: Time
  description :: string
  currentStageName :: string

definition NewProgressBar :: "string \<Rightarrow> go_int \<Rightarrow> go_int \<Rightarrow> Time \<Rightarrow> ProgressBar" where
  "NewProgressBar desc tot len now =
     \<lparr>total = tot, current = 0, barLength = len, startTime = now,
      description = desc, currentStageName = []\<rparr>"

text \<open>
  The status line is the \<^verbatim>\<open>Sprintf\<close> call that builds it: which of the two format strings,
  and the arguments. \<open>Literal\<close> texts are the string constants of the source; the others
  name the value that is formatted.
\<close>

datatype line_format = ZeroTotalFormat | NormalFormat

datatype percent_arg = PercentInt go_int | PercentFloat f64

datatype avg_text = AvgLiteral string | AvgFormatted f64

datatype eta_text = EtaLiteral string | EtaRounded Duration

record status_line =
  line_format :: line_format
  arg_description :: string
  arg_bar :: string
  arg_percent :: percent_arg
  arg_current :: go_int
  arg_total :: go_int
  arg_stage :: string
  arg_elapsed :: Duration
  arg_avg :: avg_text
  arg_eta :: eta_text

text \<open>
  \<open>arg_elapsed\<close> is printed as \<^verbatim>\<open>elapsedTime.Round(time.Second).String()\<close>, \<open>AvgFormatted x\<close>
  as \<^verbatim>\<open>Sprintf("%.1f items/s", x)\<close>, \<open>EtaRounded d\<close> as \<^verbatim>\<open>d.Round(time.Second).String()\<close>,
  \<open>PercentInt\<close> with \<^verbatim>\<open>%d\<close> and \<open>PercentFloat\<close> with \<^verbatim>\<open>%3.0f\<close>.
\<close>

definition avgSpeed_of :: "go_int \<Rightarrow> Duration \<Rightarrow> error + f64 \<times> avg_text" where
  "avgSpeed_of cur elapsedTime =
     (let elapsedSeconds = FSeconds elapsedTime
      in if sign elapsedSeconds = 1 \<and> 0 <s cur then
           (case fdiv (FInt cur) elapsedSeconds of
              Inl e \<Rightarrow> Inl e
            | Inr avgSpeed \<Rightarrow> Inr (avgSpeed, AvgFormatted avgSpeed))
         else if cur = 0 \<and> sign elapsedSeconds = 1 then Inr (FZero, AvgLiteral ''0.0 items/s'')
         else Inr (FZero, AvgLiteral ''0.0 items/s''))"

definition etaString_of :: "(f64 \<Rightarrow> go_int) \<Rightarrow> go_int \<Rightarrow> go_int \<Rightarrow> f64 \<Rightarrow> error + eta_text" where
  "etaString_of f2i cur tot avgSpeed =
     (if cur = tot then Inr (EtaLiteral ''Done'')
      else if sign avgSpeed = 1 then
        (let remainingItems = tot - cur
         in case fdiv (FInt remainingItems) avgSpeed of
              Inl e \<Rightarrow> Inl e
            | Inr etaSeconds \<Rightarrow>
                Inr (EtaRounded (f2i (FMul etaSeconds (FInt 1000)) * Millisecond)))
      else if cur = 0 \<and> 0 <s tot then Inr (EtaLiteral ''Estimating...'')
      else Inr (EtaLiteral ''N/A''))"

definition formatProgressBar ::
  "(f64 \<Rightarrow> go_int) \<Rightarrow> go_int \<Rightarrow> go_int \<Rightarrow> string \<Rightarrow> go_int \<Rightarrow> Time \<Rightarrow> string \<Rightarrow> Time
     \<Rightarrow> error + status_line" where
  "formatProgressBar f2i cur tot desc len start stage now =
     (let elapsedTime = Since now start
      in case avgSpeed_of cur elapsedTime of
           Inl e \<Rightarrow> Inl e
         | Inr (avgSpeed, avgSpeedString) \<Rightarrow>
        (case etaString_of f2i cur tot avgSpeed of
           Inl e \<Rightarrow> Inl e
         | Inr etaString \<Rightarrow>
        (if tot = 0 then
           (case Repeat ''-'' len of
              Inl e \<Rightarrow> Inl e
            | Inr bar \<Rightarrow>
                Inr \<lparr>line_format = ZeroTotalFormat, arg_description = desc, arg_bar = bar,
                     arg_percent = PercentInt 0, arg_current = cur, arg_total = tot,
                     arg_stage = stage, arg_elapsed = elapsedTime,
                     arg_avg = avgSpeedString, arg_eta = etaString\<rparr>)
         else
           (case fdiv (FInt cur) (FInt tot) of
              Inl e \<Rightarrow> Inl e
            | Inr percent \<Rightarrow>
           (let filledLength = f2i (FMul (FInt len) percent)
            in case Repeat ''='' filledLength of
                 Inl e \<Rightarrow> Inl e
               | Inr filled \<Rightarrow>
              (case Repeat ''-'' (len - filledLength) of
                 Inl e \<Rightarrow> Inl e
               | Inr rest \<Rightarrow>
                   Inr \<lparr>line_format = NormalFormat, arg_description = desc,
                        arg_bar = filled @ rest,
                        arg_percent = PercentFloat (FMul percent (FInt 100)),
                        arg_current = cur, arg_total = tot, arg_stage = stage,
                        arg_elapsed = elapsedTime, arg_avg = avgSpeedString,
                        arg_eta = etaString\<rparr>))))))"

text \<open>What a call writes to the console, in order: \<^verbatim>\<open>fmt.Print\<close> of a status line, or text.\<close>

datatype written = StatusLine status_line | Text string

definition newline :: string where
  "newline = [CHR 0x0A]"

definition displayWithoutLock ::
  "(f64 \<Rightarrow> go_int) \<Rightarrow> go_int \<Rightarrow> go_int \<Rightarrow> string \<Rightarrow> go_int \<Rightarrow> Time \<Rightarrow> string \<Rightarrow> Time
     \<Rightarrow> error + written list" where
  "displayWithoutLock f2i cur tot desc len start stage now =
     (case formatProgressBar f2i cur tot desc len start stage now of
        Inl e \<Rightarrow> Inl e
      | Inr out \<Rightarrow> Inr (StatusLine out # (if cur = tot then [Text newline] else [])))"

definition Display :: "(f64 \<Rightarrow> go_int) \<Rightarrow> ProgressBar \<Rightarrow> Time \<Rightarrow> error + written list" where
  "Display f2i pb now =
     (case formatProgressBar f2i (current pb) (total pb) (description pb) (barLength pb)
             (startTime pb) (currentStageName pb) now of
        Inl e \<Rightarrow> Inl e
      | Inr out \<Rightarrow> Inr (StatusLine out # (if current pb = total pb then [Text newline] else [])))"

text \<open>
  A mutating operation returns the bar as the call leaves it and what the call wrote, or
  the panic that ended it: the display comes last, so the fields are already updated
  when it panics.
\<close>

definition refresh :: "(f64 \<Rightarrow> go_int) \<Rightarrow> ProgressBar \<Rightarrow> Time \<Rightarrow> error + written list" where
  "refresh f2i pb now =
     displayWithoutLock f2i (current pb) (total pb) (description pb) (barLength pb)
       (startTime pb) (currentStageName pb) now"

definition IncrementBy ::
  "(f64 \<Rightarrow> go_int) \<Rightarrow> ProgressBar \<Rightarrow> go_int \<Rightarrow> Time \<Rightarrow> ProgressBar \<times> (error + written list)" where
  "IncrementBy f2i pb n now =
     (if n <s 0 then (pb, Inr [Text (''Error: Increment value cannot be negative.'' @ newline)])
      else
        (let pb1 = pb\<lparr>current := current pb + n\<rparr>;
             pb2 = (if total pb1 <s current pb1 then pb1\<lparr>current := total pb1\<rparr> else pb1)
         in (pb2, refresh f2i pb2 now)))"

definition Increment ::
  "(f64 \<Rightarrow> go_int) \<Rightarrow> ProgressBar \<Rightarrow> Time \<Rightarrow> ProgressBar \<times> (error + written list)" where
  "Increment f2i pb now = IncrementBy f2i pb 1 now"

definition AddTotal ::
  "(f64 \<Rightarrow> go_int) \<Rightarrow> ProgressBar \<Rightarrow> go_int \<Rightarrow> Time \<Rightarrow> ProgressBar \<times> (error + written list)" where
  "AddTotal f2i pb n now =
     (let pb1 = pb\<lparr>total := total pb + n\<rparr>;
          pb2 = (if total pb1 <s 0 then pb1\<lparr>total := 0\<rparr> else pb1);
          pb3 = (if total pb2 <s current pb2 then pb2\<lparr>current := total pb2\<rparr> else pb2)
      in (pb3, refresh f2i pb3 now))"

definition SetCurrentStage ::
  "(f64 \<Rightarrow> go_int) \<Rightarrow> ProgressBar \<Rightarrow> string \<Rightarrow> Time \<Rightarrow> ProgressBar \<times> (error + written list)" where
  "SetCurrentStage f2i pb name now =
     (let pb1 = pb\<lparr>currentStageName := name\<rparr> in (pb1, refresh f2i pb1 now))"

text \<open>The stage name of \<^verbatim>\<open>Finish\<close> is the six bytes of its two characters in UTF-8.\<close>

definition finished_name :: string where
  "finished_name = [CHR 0xE5, CHR 0xAE, CHR 0x8C, CHR 0xE6, CHR 0x88, CHR 0x90]"

definition Finish ::
  "(f64 \<Rightarrow> go_int) \<Rightarrow> ProgressBar \<Rightarrow> Time \<Rightarrow> ProgressBar \<times> (error + written list)" where
  "Finish f2i pb now =
     (let pb1 = pb\<lparr>current := total pb, currentStageName := finished_name\<rparr>
      in (pb1, case refresh f2i pb1 now of
                 Inl e \<Rightarrow> Inl e
               | Inr out \<Rightarrow> Inr (out @ [Text newline])))"

text \<open>
  A run of \<^verbatim>\<open>IncrementBy\<close> and \<^verbatim>\<open>AddTotal\<close> calls, each with the clock reading of its
  display; \<open>states_after\<close> lists the bar after every call. A caller that recovers from a
  panic of the display goes on with the bar as the call left it.
\<close>

datatype call = CallIncrementBy go_int | CallAddTotal go_int

fun perform :: "(f64 \<Rightarrow> go_int) \<Rightarrow> ProgressBar \<Rightarrow> call \<times> Time \<Rightarrow> ProgressBar" where
  "perform f2i pb (CallIncrementBy n, now) = fst (IncrementBy f2i pb n now)"
| "perform f2i pb (CallAddTotal n, now) = fst (AddTotal f2i pb n now)"

fun states_after :: "(f64 \<Rightarrow> go_int) \<Rightarrow> ProgressBar \<Rightarrow> (call \<times> Time) list \<Rightarrow> ProgressBar list" where
  "states_after f2i pb [] = []"
| "states_after f2i pb (c # cs) = perform f2i pb c # states_after f2i (perform f2i pb c) cs"

text \<open>The arguments of the \<^verbatim>\<open>IncrementBy\<close> calls of a run are not negative.\<close>

fun nonneg_call :: "call \<times> Time \<Rightarrow> bool" where
  "nonneg_call (CallIncrementBy n, now) = (0 \<le>s n)"
| "nonneg_call (CallAddTotal n, now) = True"

text \<open>
  No \<^verbatim>\<open>pb.current += n\<close> of the run leaves the range of \<^verbatim>\<open>int\<close>: the sum of the two
  values is at most the largest one.
\<close>

fun in_range_call :: "ProgressBar \<Rightarrow> call \<times> Time \<Rightarrow> bool" where
  "in_range_call pb (CallIncrementBy n, now) = (sint (current pb) + sint n \<le> sint maxInt)"
| "in_range_call pb (CallAddTotal n, now) = True"

fun in_range_run :: "(f64 \<Rightarrow> go_int) \<Rightarrow> ProgressBar \<Rightarrow> (call \<times> Time) list \<Rightarrow> bool" where
  "in_range_run f2i pb [] = True"
| "in_range_run f2i pb (c # cs) = (in_range_call pb c \<and> in_range_run f2i (perform f2i pb c) cs)"

definition invariant :: "ProgressBar \<Rightarrow> bool" where
  "invariant pb = (0 \<le>s current pb \<and> current pb \<le>s total pb)"

text \<open>\<^verbatim>\<open>Increment\<close> called once for every clock reading of a list, one call after the other.\<close>

fun increments :: "(f64 \<Rightarrow> go_int) \<Rightarrow> ProgressBar \<Rightarrow> Time list \<Rightarrow> ProgressBar" where
  "increments f2i pb [] = pb"
| "increments f2i pb (now # ts) = increments f2i (fst (Increment f2i pb now)) ts"



section \<open>The stage reporter\<close>

text \<open>
  \<^verbatim>\<open>keyStage\<close> and \<^verbatim>\<open>ProgressReporter\<close>. The fields \<^verbatim>\<open>totalDuration\<close>, \<^verbatim>\<open>startTime\<close> and
  \<^verbatim>\<open>endTime\<close> exist in both structs (and \<^verbatim>\<open>startTime\<close> in the bar); here those of a stage
  carry the prefix \<open>stage_\<close> and the two instants of the reporter the prefix
  \<open>reporter_\<close>. The map \<^verbatim>\<open>ks\<close> holds pointers that nothing else holds, so an update through
  one is an update of the map's entry. The zero value of an instant is the reading 0.
\<close>

record keyStage =
  name :: string
  stage_totalDuration :: Duration
  count :: go_int
  maxDuration :: Duration
  minDuration :: Duration
  stage_startTime :: Time
  stage_endTime :: Time

record ProgressReporter =
  reporter_startTime :: Time
  reporter_endTime :: Time
  totalDuration :: Duration
  ks :: "string \<rightharpoonup> keyStage"

definition NewProgressReporter :: ProgressReporter where
  "NewProgressReporter =
     \<lparr>reporter_startTime = 0, reporter_endTime = 0, totalDuration = 0, ks = Map.empty\<rparr>"

definition StartRecord :: "ProgressReporter \<Rightarrow> Time \<Rightarrow> ProgressReporter" where
  "StartRecord p now = p\<lparr>reporter_startTime := now\<rparr>"

definition EndRecord :: "ProgressReporter \<Rightarrow> Time \<Rightarrow> ProgressReporter" where
  "EndRecord p now =
     (let p1 = p\<lparr>reporter_endTime := now\<rparr>
      in p1\<lparr>totalDuration := Sub (reporter_endTime p1) (reporter_startTime p1)\<rparr>)"

text \<open>
  \<^verbatim>\<open>StartKeyStageRecord\<close>: a name the map does not hold gets a fresh entry, whose fields
  are zero but \<^verbatim>\<open>name\<close> and \<^verbatim>\<open>minDuration\<close>; the entry then exists, so the assignment
  through it cannot fail.
\<close>

definition new_keyStage :: "string \<Rightarrow> keyStage" where
  "new_keyStage nm =
     \<lparr>name = nm, stage_totalDuration = 0, count = 0, maxDuration = 0,
      minDuration = 9223372036854775807, stage_startTime = 0, stage_endTime = 0\<rparr>"

definition StartKeyStageRecord :: "ProgressReporter \<Rightarrow> string \<Rightarrow> Time \<Rightarrow> ProgressReporter" where
  "StartKeyStageRecord p nm now =
     (let ks1 = (case ks p nm of None \<Rightarrow> (ks p)(nm \<mapsto> new_keyStage nm) | Some st \<Rightarrow> ks p)
      in case ks1 nm of
           None \<Rightarrow> p\<lparr>ks := ks1\<rparr>
         | Some st \<Rightarrow> p\<lparr>ks := ks1(nm \<mapsto> st\<lparr>stage_startTime := now\<rparr>)\<rparr>)"

text \<open>
  \<^verbatim>\<open>EndKeyStageRecord\<close>: \<^verbatim>\<open>p.ks[name]\<close> of a name the map does not hold is the nil
  pointer, and the first statement assigns through it: the call panics with the reporter
  as it found it. The result of a panic carries that reporter.
\<close>

definition EndKeyStageRecord ::
  "ProgressReporter \<Rightarrow> string \<Rightarrow> Time \<Rightarrow> error \<times> ProgressReporter + ProgressReporter" where
  "EndKeyStageRecord p nm now =
     (case ks p nm of
        None \<Rightarrow> Inl (NilPointerDereference, p)
      | Some st \<Rightarrow>
          (let st1 = st\<lparr>stage_endTime := now\<rparr>;
               currentDuration = Sub (stage_endTime st1) (stage_startTime st1);
               st2 = st1\<lparr>stage_totalDuration := stage_totalDuration st1 + currentDuration\<rparr>;
               st3 = st2\<lparr>count := count st2 + 1\<rparr>;
               st4 = (if maxDuration st3 <s currentDuration
                      then st3\<lparr>maxDuration := currentDuration\<rparr> else st3);
               st5 = (if currentDuration <s minDuration st4
                      then st4\<lparr>minDuration := currentDuration\<rparr> else st4)
           in Inr (p\<lparr>ks := (ks p)(nm \<mapsto> st5)\<rparr>)))"

text \<open>\<^verbatim>\<open>%d\<close> of an integer: its decimal digits, after a minus sign when it is negative.\<close>

definition digit :: "nat \<Rightarrow> char" where
  "digit n = ''0123456789'' ! n"

fun digits :: "nat \<Rightarrow> string" where
  "digits n = (if n < 10 then [digit n] else digits (n div 10) @ [digit (n mod 10)])"

declare digits.simps [simp del]

definition fmt_d :: "int \<Rightarrow> string" where
  "fmt_d i = (if i < 0 then CHR ''-'' # digits (nat (- i)) else digits (nat i))"

text \<open>
  \<^verbatim>\<open>Report\<close> returns the text of its \<^verbatim>\<open>Printf\<close> calls, one string each. The order in which
  \<^verbatim>\<open>range p.ks\<close> yields the keys is the runtime's choice: it is the argument \<open>order\<close>,
  and \<open>iteration_of\<close> says that it lists every key of the map once.
\<close>

definition total_line :: "ProgressReporter \<Rightarrow> string" where
  "total_line p = ''Total duration: '' @ fmt_d (seconds_of (totalDuration p)) @ '' s'' @ newline"

definition stage_line :: "string \<Rightarrow> keyStage \<Rightarrow> string" where
  "stage_line k v =
     [CHR 0x09] @ '' Key: '' @ k @ '', Count: '' @ fmt_d (sint (count v))
       @ '', Total duration: '' @ fmt_d (seconds_of (stage_totalDuration v))
       @ '' s, Max duration: '' @ fmt_d (seconds_of (maxDuration v))
       @ '' s, Min duration: '' @ fmt_d (seconds_of (minDuration v)) @ '' s'' @ newline"

definition Report :: "ProgressReporter \<Rightarrow> string list \<Rightarrow> string list" where
  "Report p order =
     total_line p # List.map_filter (\<lambda>k. map_option (stage_line k) (ks p k)) order"

definition iteration_of :: "ProgressReporter \<Rightarrow> string list \<Rightarrow> bool" where
  "iteration_of p order = (distinct order \<and> set order = dom (ks p))"

text \<open>
  The stage line as the specification words it: a tab and then \<^verbatim>\<open>Key:\<close>, with nothing
  between them.
\<close>

definition spec_stage_line :: "string \<Rightarrow> int \<Rightarrow> int \<Rightarrow> int \<Rightarrow> int \<Rightarrow> string" where
  "spec_stage_line nm cnt tot mx mn =
     [CHR 0x09] @ ''Key: '' @ nm @ '', Count: '' @ fmt_d cnt
       @ '', Total duration: '' @ fmt_d tot
       @ '' s, Max duration: '' @ fmt_d mx
       @ '' s, Min duration: '' @ fmt_d mn @ '' s''"

text \<open>
  A run of calls on a reporter, each with its clock reading; it ends at the first panic.
\<close>

datatype reporter_call =
  CallStartRecord | CallEndRecord | CallStartKeyStage string | CallEndKeyStage string

fun perform_reporter ::
  "ProgressReporter \<Rightarrow> reporter_call \<times> Time \<Rightarrow> error \<times> ProgressReporter + ProgressReporter" where
  "perform_reporter p (CallStartRecord, now) = Inr (StartRecord p now)"
| "perform_reporter p (CallEndRecord, now) = Inr (EndRecord p now)"
| "perform_reporter p (CallStartKeyStage nm, now) = Inr (StartKeyStageRecord p nm now)"
| "perform_reporter p (CallEndKeyStage nm, now) = EndKeyStageRecord p nm now"

fun run_reporter ::
  "ProgressReporter \<Rightarrow> (reporter_call \<times> Time) list \<Rightarrow> error \<times> ProgressReporter + ProgressReporter" where
  "run_reporter p [] = Inr p"
| "run_reporter p (c # cs) =
     (case perform_reporter p c of Inl e \<Rightarrow> Inl e | Inr p1 \<Rightarrow> run_reporter p1 cs)"

fun starts :: "string \<Rightarrow> reporter_call \<times> Time \<Rightarrow> bool" where
  "starts nm (CallStartKeyStage k, now) = (k = nm)"
| "starts nm (c, now) = False"

fun mentions :: "string \<Rightarrow> reporter_call \<times> Time \<Rightarrow> bool" where
  "mentions nm (CallStartKeyStage k, now) = (k = nm)"
| "mentions nm (CallEndKeyStage k, now) = (k = nm)"
| "mentions nm (c, now) = False"

section \<open>Facts about words\<close>

lemma sint_add_in_range:
  fixes a b :: go_int
  assumes "- 9223372036854775808 \<le> sint a + sint b" "sint a + sint b \<le> 9223372036854775807"
  shows "sint (a + b) = sint a + sint b"
  using assms by (simp add: sint_word_ariths signed_take_bit_int_eq_self)

lemma sint_maxInt: "sint maxInt = 9223372036854775807"
  by (simp add: maxInt_def)

lemma sint_minInt: "sint minInt = - 9223372036854775808"
  by (simp add: minInt_def)

lemma sint_bounds: "- 9223372036854775808 \<le> sint (a::go_int) \<and> sint a \<le> 9223372036854775807"
  using sint_ge [of a] sint_lt [of a] by simp



section \<open>The counters of the progress bar\<close>

lemma IncrementBy_state:
  "fst (IncrementBy f2i pb n now) =
     (if n <s 0 then pb
      else pb\<lparr>current := (if total pb <s current pb + n then total pb else current pb + n)\<rparr>)"
  by (simp add: IncrementBy_def Let_def)

lemma AddTotal_total:
  "total (fst (AddTotal f2i pb n now)) = (if total pb + n <s 0 then 0 else total pb + n)"
  by (simp add: AddTotal_def Let_def)

lemma AddTotal_current:
  "current (fst (AddTotal f2i pb n now)) =
     (if total (fst (AddTotal f2i pb n now)) <s current pb
      then total (fst (AddTotal f2i pb n now)) else current pb)"
  by (simp add: AddTotal_def Let_def)

lemma invariant_NewProgressBar: "0 \<le>s tot \<Longrightarrow> invariant (NewProgressBar desc tot len now)"
  by (simp add: invariant_def NewProgressBar_def)

text \<open>
  \<^verbatim>\<open>IncrementBy\<close> keeps the invariant when its sum stays in range: the sum is then the sum
  of the two values, not negative, and the clamp brings it under \<open>total\<close>.
\<close>

lemma invariant_IncrementBy:
  assumes "invariant pb" "0 \<le>s n" "sint (current pb) + sint n \<le> sint maxInt"
  shows "invariant (fst (IncrementBy f2i pb n now))"
proof -
  have nn: "0 \<le> sint n"
    using assms(2) by (simp add: word_sle_eq)
  have c0: "0 \<le> sint (current pb)"
    using assms(1) by (simp add: invariant_def word_sle_eq)
  have ct: "sint (current pb) \<le> sint (total pb)"
    using assms(1) by (simp add: invariant_def word_sle_eq)
  have sum: "sint (current pb + n) = sint (current pb) + sint n"
    using nn c0 assms(3) by (intro sint_add_in_range) (simp_all add: sint_maxInt)
  have notneg: "\<not> n <s 0"
    using nn by (simp add: word_sless_alt)
  show ?thesis
    using nn c0 ct sum notneg
    by (simp add: IncrementBy_state invariant_def word_sle_eq word_sless_alt)
qed

text \<open>\<^verbatim>\<open>AddTotal\<close> keeps it whatever its argument: both clamps come after the sum.\<close>

lemma invariant_AddTotal:
  assumes "invariant pb"
  shows "invariant (fst (AddTotal f2i pb n now))"
  using assms
  by (simp add: invariant_def AddTotal_total AddTotal_current word_sle_eq word_sless_alt)

lemma invariant_perform:
  "invariant pb \<Longrightarrow> nonneg_call c \<Longrightarrow> in_range_call pb c \<Longrightarrow> invariant (perform f2i pb c)"
  by (cases "(f2i, pb, c)" rule: perform.cases)
    (simp_all add: invariant_IncrementBy invariant_AddTotal)

lemma invariant_states_after:
  "invariant pb \<Longrightarrow> \<forall>c\<in>set cs. nonneg_call c \<Longrightarrow> in_range_run f2i pb cs \<Longrightarrow>
     \<forall>pb'\<in>set (states_after f2i pb cs). invariant pb'"
proof (induction cs arbitrary: pb)
  case Nil
  then show ?case by simp
next
  case (Cons c cs)
  have step: "invariant (perform f2i pb c)"
    using Cons.prems by (simp add: invariant_perform)
  have rest: "\<forall>pb'\<in>set (states_after f2i (perform f2i pb c) cs). invariant pb'"
    using Cons.IH [OF step] Cons.prems by simp
  show ?case using step rest by simp
qed

text \<open>
  C1, as the code has it. From a bar created with \<open>0 \<le> total\<close>, after every call of a run
  of \<^verbatim>\<open>IncrementBy\<close> calls with arguments that are not negative and \<^verbatim>\<open>AddTotal\<close> calls with
  any argument, \<open>0 \<le> current \<le> total\<close> holds, provided no sum \<^verbatim>\<open>pb.current += n\<close> of the
  run exceeds the largest \<^verbatim>\<open>int\<close>.
\<close>

theorem invariant_after_every_call:
  assumes "0 \<le>s tot"
    and "\<forall>c\<in>set cs. nonneg_call c"
    and "in_range_run f2i (NewProgressBar desc tot len now) cs"
  shows "\<forall>pb\<in>set (states_after f2i (NewProgressBar desc tot len now) cs). invariant pb"
  using assms invariant_states_after [OF invariant_NewProgressBar] by blast

text \<open>
  The run of the repository's test \<^verbatim>\<open>TestAddTotal\<close>, shortened: 5 units of 10, the total
  cut by 8, 7 units more.
\<close>

theorem invariant_after_every_call_witness:
  "0 \<le>s (10::go_int)
   \<and> list_all nonneg_call [(CallIncrementBy 5, 1), (CallAddTotal (- 8), 2), (CallIncrementBy 7, 3)]
   \<and> in_range_run (\<lambda>x. 0) (NewProgressBar ''T'' 10 10 0)
        [(CallIncrementBy 5, 1), (CallAddTotal (- 8), 2), (CallIncrementBy 7, 3)]
   \<and> list_all invariant (states_after (\<lambda>x. 0) (NewProgressBar ''T'' 10 10 0)
        [(CallIncrementBy 5, 1), (CallAddTotal (- 8), 2), (CallIncrementBy 7, 3)])"
proof -
  have h1: "0 \<le>s (10::go_int)"
    by (simp add: word_sle_eq)
  have h2: "\<forall>c\<in>set [(CallIncrementBy 5, 1), (CallAddTotal (- 8), 2), (CallIncrementBy 7, 3)].
              nonneg_call c"
    by (simp add: word_sle_eq)
  have h3: "in_range_run (\<lambda>x. 0) (NewProgressBar ''T'' 10 10 0)
        [(CallIncrementBy 5, 1), (CallAddTotal (- 8), 2), (CallIncrementBy 7, 3)]"
    by (simp add: NewProgressBar_def IncrementBy_state AddTotal_def Let_def sint_maxInt
          word_sless_alt word_sle_eq)
  show ?thesis
    using h1 h2 h3 invariant_after_every_call [OF h1 h2 h3]
    by (simp add: list_all_iff del: states_after.simps)
qed

text \<open>
  C1 as stated fails. One unit of 10 is done, and \<^verbatim>\<open>IncrementBy\<close> is called with the
  largest \<^verbatim>\<open>int\<close>, which is not negative: the sum wraps around to the smallest
  \<^verbatim>\<open>int\<close>, which is not above \<open>total\<close>, so no clamp applies and \<open>current\<close> is left
  negative.
\<close>

theorem invariant_broken_by_wrap_around:
  "0 \<le>s (10::go_int)
   \<and> nonneg_call (CallIncrementBy 1, 1) \<and> nonneg_call (CallIncrementBy maxInt, 2)
   \<and> states_after (\<lambda>x. 0) (NewProgressBar ''T'' 10 10 0)
        [(CallIncrementBy 1, 1), (CallIncrementBy maxInt, 2)]
      = [\<lparr>total = 10, current = 1, barLength = 10, startTime = 0, description = ''T'',
           currentStageName = []\<rparr>,
         \<lparr>total = 10, current = minInt, barLength = 10, startTime = 0, description = ''T'',
           currentStageName = []\<rparr>]
   \<and> \<not> invariant \<lparr>total = 10, current = minInt, barLength = 10, startTime = 0,
                    description = ''T'', currentStageName = []\<rparr>"
  by (simp add: NewProgressBar_def IncrementBy_state maxInt_def minInt_def invariant_def
        word_sless_alt word_sle_eq)

text \<open>
  C2. \<^verbatim>\<open>IncrementBy\<close> with a negative argument returns without a panic, leaves the bar as
  it was (\<open>current\<close> and \<open>total\<close> with it), and writes the warning and nothing else: no
  status line.
\<close>

theorem negative_increment_rejected:
  assumes "n <s 0"
  shows "IncrementBy f2i pb n now =
           (pb, Inr [Text (''Error: Increment value cannot be negative.'' @ newline)])
       \<and> current (fst (IncrementBy f2i pb n now)) = current pb
       \<and> total (fst (IncrementBy f2i pb n now)) = total pb
       \<and> (\<exists>out. snd (IncrementBy f2i pb n now) = Inr out \<and> (\<forall>l. StatusLine l \<notin> set out))"
  using assms by (simp add: IncrementBy_def)

theorem negative_increment_rejected_witness:
  "(- 1 :: go_int) <s 0
   \<and> IncrementBy (\<lambda>x. 0) (NewProgressBar ''T'' 10 10 0) (- 1) 5 =
       (NewProgressBar ''T'' 10 10 0,
        Inr [Text (''Error: Increment value cannot be negative.'' @ newline)])"
proof -
  have h: "(- 1 :: go_int) <s 0"
    by simp
  show ?thesis
    using h negative_increment_rejected [OF h] by simp
qed

text \<open>
  C3, as the code has it. \<^verbatim>\<open>AddTotal\<close> sets \<open>total\<close> to the larger of 0 and the sum
  \<^verbatim>\<open>pb.total + n\<close> as Go computes it, which is the sum of the two values whenever that
  lies in the range of \<^verbatim>\<open>int\<close>; \<open>total\<close> is never left negative; and \<open>current\<close> becomes
  the new \<open>total\<close> when it exceeds it and is unchanged otherwise.
\<close>

theorem AddTotal_total_and_clamp:
  "sint (total (fst (AddTotal f2i pb n now))) = max (sint (total pb + n)) 0
   \<and> (- 9223372036854775808 \<le> sint (total pb) + sint n
        \<and> sint (total pb) + sint n \<le> 9223372036854775807
        \<longrightarrow> sint (total (fst (AddTotal f2i pb n now))) = max (sint (total pb) + sint n) 0)
   \<and> 0 \<le>s total (fst (AddTotal f2i pb n now))
   \<and> current (fst (AddTotal f2i pb n now)) =
       (if total (fst (AddTotal f2i pb n now)) <s current pb
        then total (fst (AddTotal f2i pb n now)) else current pb)"
  by (auto simp add: AddTotal_total AddTotal_current word_sless_alt word_sle_eq
      sint_add_in_range)

text \<open>
  The step of \<^verbatim>\<open>TestAddTotal\<close> that cuts the total under the progress: 12 of 15 done,
  the total reduced by 8.
\<close>

theorem AddTotal_total_and_clamp_witness:
  "- 9223372036854775808 \<le> sint (15::go_int) + sint (- 8 :: go_int)
   \<and> sint (15::go_int) + sint (- 8 :: go_int) \<le> 9223372036854775807
   \<and> sint (total (fst (AddTotal (\<lambda>x. 0)
        \<lparr>total = 15, current = 12, barLength = 10, startTime = 0, description = ''T'',
          currentStageName = []\<rparr> (- 8) 1))) = max (sint (15::go_int) + sint (- 8 :: go_int)) 0
   \<and> total (fst (AddTotal (\<lambda>x. 0)
        \<lparr>total = 15, current = 12, barLength = 10, startTime = 0, description = ''T'',
          currentStageName = []\<rparr> (- 8) 1)) = 7
   \<and> current (fst (AddTotal (\<lambda>x. 0)
        \<lparr>total = 15, current = 12, barLength = 10, startTime = 0, description = ''T'',
          currentStageName = []\<rparr> (- 8) 1)) = 7"
  using AddTotal_total_and_clamp [of "\<lambda>x. 0"
      "\<lparr>total = 15, current = 12, barLength = 10, startTime = 0, description = ''T'',
        currentStageName = []\<rparr>" "- 8" 1]
  by (simp add: AddTotal_total AddTotal_current word_sless_alt)

text \<open>
  C3 as stated fails when the sum leaves the range: 10 and the largest \<^verbatim>\<open>int\<close> add up to
  a negative value in Go, so \<open>total\<close> becomes 0 and not the larger of 0 and the sum of the
  two values.
\<close>

theorem AddTotal_sum_wraps:
  "total (fst (AddTotal (\<lambda>x. 0) (NewProgressBar ''T'' 10 10 0) maxInt 1)) = 0
   \<and> sint (total (fst (AddTotal (\<lambda>x. 0) (NewProgressBar ''T'' 10 10 0) maxInt 1)))
     \<noteq> max (sint (total (NewProgressBar ''T'' 10 10 0)) + sint maxInt) 0"
  by (simp add: AddTotal_total NewProgressBar_def maxInt_def word_sless_alt)

section \<open>The status line\<close>

lemma replicate_2: "replicate 2 c = [c, c]"
  by (simp add: numeral_2_eq_2)

lemma replicate_3: "replicate 3 c = [c, c, c]"
  by (simp add: numeral_3_eq_3)

lemmas eval_format = formatProgressBar_def Since_def Sub_def avgSpeed_of_def etaString_of_def
  Repeat_def fdiv_def Let_def word_sless_alt word_sle_eq











text \<open>
  C6, as the code has it. A display that returns has written the status line and then a
  newline exactly when \<open>current = total\<close>, whatever the total: \<^verbatim>\<open>Display\<close> and
  \<^verbatim>\<open>displayWithoutLock\<close> test nothing else, and \<^verbatim>\<open>formatProgressBar\<close> returns its line to
  them in both of its branches.
\<close>

theorem newline_iff_current_is_total:
  "(\<forall>out. Display f2i pb now = Inr out \<longrightarrow>
      (\<exists>l. out = StatusLine l # (if current pb = total pb then [Text newline] else [])))
   \<and> (\<forall>out. displayWithoutLock f2i cur tot desc len start stage now = Inr out \<longrightarrow>
      (\<exists>l. out = StatusLine l # (if cur = tot then [Text newline] else [])))"
  by (auto simp add: Display_def displayWithoutLock_def split: sum.splits)

text \<open>Two displays of a bar at 5 of 20, with a bar of two characters, after a second.\<close>

lemma render_5_of_20:
  "formatProgressBar (\<lambda>x. if x = FMul (FInt 2) (FDiv (FInt 5) (FInt 20)) then 0 else 3000)
     5 20 ''T'' 2 0 [] 1000000000 =
   Inr \<lparr>line_format = NormalFormat, arg_description = ''T'', arg_bar = ''--'',
        arg_percent = PercentFloat (FMul (FDiv (FInt 5) (FInt 20)) (FInt 100)),
        arg_current = 5, arg_total = 20, arg_stage = [], arg_elapsed = 1000000000,
        arg_avg = AvgFormatted (FDiv (FInt 5) (FSeconds 1000000000)),
        arg_eta = EtaRounded 3000000000\<rparr>"
  by (simp add: eval_format replicate_2 Millisecond_def)

theorem newline_iff_current_is_total_witness:
  "(\<exists>l. Display (\<lambda>x. if x = FMul (FInt 2) (FDiv (FInt 5) (FInt 20)) then 0 else 3000)
          \<lparr>total = 20, current = 5, barLength = 2, startTime = 0, description = ''T'',
            currentStageName = []\<rparr> 1000000000 = Inr [StatusLine l])
   \<and> (\<exists>l. displayWithoutLock (\<lambda>x. if x = FMul (FInt 2) (FDiv (FInt 5) (FInt 20)) then 0 else 3000)
          5 20 ''T'' 2 0 [] 1000000000 = Inr [StatusLine l])"
proof -
  let ?f = "\<lambda>x. if x = FMul (FInt 2) (FDiv (FInt 5) (FInt 20)) then 0 else (3000::go_int)"
  let ?pb = "\<lparr>total = 20, current = 5, barLength = 2, startTime = 0, description = ''T'',
              currentStageName = []\<rparr>"
  obtain o1 where d1: "Display ?f ?pb 1000000000 = Inr o1"
    by (simp add: Display_def render_5_of_20)
  obtain o2 where d2: "displayWithoutLock ?f 5 20 ''T'' 2 0 [] 1000000000 = Inr o2"
    by (simp add: displayWithoutLock_def render_5_of_20)
  have "\<exists>l. o1 = StatusLine l # (if current ?pb = total ?pb then [Text newline] else [])"
    using newline_iff_current_is_total [where ?f2i = ?f and ?pb = ?pb and ?now = 1000000000] d1
    by blast
  moreover have "\<exists>l. o2 = StatusLine l # (if (5::go_int) = 20 then [Text newline] else [])"
    using newline_iff_current_is_total [where ?f2i = ?f and ?now = 1000000000 and ?cur = 5
        and ?tot = 20 and ?desc = "''T''" and ?len = 2 and ?start = 0 and ?stage = "[]"] d2
    by blast
  ultimately show ?thesis
    using d1 d2 by simp
qed

text \<open>
  C6 as stated fails at \<open>total = 0\<close>: a fresh bar with no work has \<open>current = total = 0\<close>,
  and its display ends with the newline.
\<close>

theorem newline_at_zero_total:
  "total (NewProgressBar ''T'' 0 3 0) = 0
   \<and> current (NewProgressBar ''T'' 0 3 0) = total (NewProgressBar ''T'' 0 3 0)
   \<and> Display (\<lambda>x. 0) (NewProgressBar ''T'' 0 3 0) 5 =
       Inr [StatusLine \<lparr>line_format = ZeroTotalFormat, arg_description = ''T'',
                        arg_bar = ''---'', arg_percent = PercentInt 0, arg_current = 0,
                        arg_total = 0, arg_stage = [], arg_elapsed = 5,
                        arg_avg = AvgLiteral ''0.0 items/s'', arg_eta = EtaLiteral ''Done''\<rparr>,
            Text newline]"
  by (simp add: NewProgressBar_def Display_def eval_format replicate_3)






section \<open>The stages of the reporter\<close>

lemma sint_Sub:
  "sint (Sub t u) =
     (if 9223372036854775807 < t - u then 9223372036854775807
      else if t - u < - 9223372036854775808 then - 9223372036854775808
      else t - u)"
proof -
  have fits: "sint (word_of_int d :: go_int) = d"
    if "- 9223372036854775808 \<le> d" "d \<le> 9223372036854775807" for d
    using that by (simp add: sint_sbintrunc' signed_take_bit_int_eq_self)
  show ?thesis
    unfolding Sub_def Let_def
    by (simp add: maxInt_def minInt_def fits del: of_int_diff)
qed

lemma Sub_nonneg: "t1 \<le> t2 \<Longrightarrow> 0 \<le> sint (Sub t2 t1)"
  by (simp add: sint_Sub)

lemma ks_Start_same:
  "ks (StartKeyStageRecord p nm now) nm =
     Some ((case ks p nm of None \<Rightarrow> new_keyStage nm | Some st \<Rightarrow> st)\<lparr>stage_startTime := now\<rparr>)"
  by (simp add: StartKeyStageRecord_def Let_def split: option.splits)

lemma ks_Start_other: "k \<noteq> nm \<Longrightarrow> ks (StartKeyStageRecord p nm now) k = ks p k"
  by (simp add: StartKeyStageRecord_def Let_def split: option.splits)

lemma End_none: "ks p nm = None \<Longrightarrow> EndKeyStageRecord p nm now = Inl (NilPointerDereference, p)"
  by (simp add: EndKeyStageRecord_def)

lemma End_other: "EndKeyStageRecord p nm now = Inr p' \<Longrightarrow> k \<noteq> nm \<Longrightarrow> ks p' k = ks p k"
  by (auto simp add: EndKeyStageRecord_def Let_def split: option.splits)

lemma perform_frame:
  "perform_reporter p c = Inr p' \<Longrightarrow> \<not> mentions nm c \<Longrightarrow> ks p' nm = ks p nm"
  by (cases "(p, c)" rule: perform_reporter.cases)
    (auto simp add: StartRecord_def EndRecord_def Let_def ks_Start_other End_other)

lemma run_frame:
  "run_reporter p cs = Inr p' \<Longrightarrow> \<forall>c\<in>set cs. \<not> mentions nm c \<Longrightarrow> ks p' nm = ks p nm"
proof (induction cs arbitrary: p)
  case Nil
  then show ?case by simp
next
  case (Cons c cs)
  then obtain p1 where p1: "perform_reporter p c = Inr p1" and rest: "run_reporter p1 cs = Inr p'"
    by (auto split: sum.splits)
  have "ks p1 nm = ks p nm"
    using p1 Cons.prems by (simp add: perform_frame)
  moreover have "ks p' nm = ks p1 nm"
    using Cons.IH [OF rest] Cons.prems by simp
  ultimately show ?case by simp
qed

lemma End_never_started:
  "EndKeyStageRecord p k now = Inr p' \<Longrightarrow> ks p nm = None \<Longrightarrow> ks p' nm = None"
  by (cases "k = nm") (auto simp add: End_none dest: End_other)

lemma perform_never_started:
  "perform_reporter p c = Inr p' \<Longrightarrow> \<not> starts nm c \<Longrightarrow> ks p nm = None \<Longrightarrow> ks p' nm = None"
  by (cases "(p, c)" rule: perform_reporter.cases)
    (auto simp add: StartRecord_def EndRecord_def Let_def ks_Start_other
      dest: End_never_started)

lemma run_never_started:
  "run_reporter p cs = Inr p' \<Longrightarrow> \<forall>c\<in>set cs. \<not> starts nm c \<Longrightarrow> ks p nm = None \<Longrightarrow>
     ks p' nm = None"
proof (induction cs arbitrary: p)
  case Nil
  then show ?case by simp
next
  case (Cons c cs)
  then obtain p1 where p1: "perform_reporter p c = Inr p1" and rest: "run_reporter p1 cs = Inr p'"
    by (auto split: sum.splits)
  have "ks p1 nm = None"
    using p1 Cons.prems by (simp add: perform_never_started)
  then show ?case
    using Cons.IH [OF rest] Cons.prems by simp
qed

lemma End_first_sample:
  assumes "ks p nm = Some ((new_keyStage nm)\<lparr>stage_startTime := t1\<rparr>)" and "t1 \<le> t2"
  shows "\<exists>p2 st. EndKeyStageRecord p nm t2 = Inr p2 \<and> ks p2 nm = Some st
           \<and> count st = 1 \<and> minDuration st = Sub t2 t1 \<and> maxDuration st = Sub t2 t1
           \<and> stage_totalDuration st = Sub t2 t1"
proof -
  have d0: "0 \<le> sint (Sub t2 t1)"
    using assms(2) by (rule Sub_nonneg)
  have dmax: "sint (Sub t2 t1) \<le> 9223372036854775807"
    using sint_bounds [of "Sub t2 t1"] by simp
  have mx: "\<not> 0 <s Sub t2 t1 \<Longrightarrow> Sub t2 t1 = 0"
    using d0 by (auto simp add: word_sless_alt signed_eq_0_iff order_less_le)
  have mn: "\<not> Sub t2 t1 <s 9223372036854775807 \<Longrightarrow> Sub t2 t1 = 9223372036854775807"
    using dmax by (intro signed_word_eqI) (simp add: word_sless_alt)
  show ?thesis
    using mx mn by (auto simp add: EndKeyStageRecord_def assms(1) new_keyStage_def Let_def)
qed

text \<open>
  C8. A stage name the reporter has not seen is started at \<open>t1\<close>; calls that do not
  mention the name follow; the stage is ended at \<open>t2\<close>, not before \<open>t1\<close> on the clock. The
  call returns, and the statistics of the name have the count 1 and the one sample
  \<open>t2 - t1\<close> as their minimum, maximum and total. The new entry starts with the largest
  duration as its minimum, so the first sample replaces it (or equals it).
\<close>

theorem single_pair_statistics:
  assumes "ks p nm = None"
    and "\<forall>c\<in>set between. \<not> mentions nm c"
    and "run_reporter (StartKeyStageRecord p nm t1) between = Inr p1"
    and "t1 \<le> t2"
  shows "minDuration (new_keyStage nm) = maxInt
       \<and> (\<exists>p2 st. EndKeyStageRecord p1 nm t2 = Inr p2 \<and> ks p2 nm = Some st
           \<and> count st = 1 \<and> minDuration st = maxDuration st
           \<and> maxDuration st = stage_totalDuration st \<and> stage_totalDuration st = Sub t2 t1)"
proof -
  have "ks p1 nm = ks (StartKeyStageRecord p nm t1) nm"
    using assms(3,2) by (rule run_frame)
  then have "ks p1 nm = Some ((new_keyStage nm)\<lparr>stage_startTime := t1\<rparr>)"
    by (simp add: ks_Start_same assms(1))
  from End_first_sample [OF this assms(4)] show ?thesis
    by (auto simp add: new_keyStage_def maxInt_def)
qed


theorem single_pair_statistics_witness:
  "ks NewProgressReporter ''load'' = None
   \<and> \<not> mentions ''load'' (CallStartKeyStage ''parse'', 1)
   \<and> run_reporter (StartKeyStageRecord NewProgressReporter ''load'' 0)
         [(CallStartKeyStage ''parse'', 1)] =
       Inr (StartKeyStageRecord (StartKeyStageRecord NewProgressReporter ''load'' 0) ''parse'' 1)
   \<and> (0::int) \<le> 2500000000
   \<and> (\<exists>p2 st. EndKeyStageRecord
          (StartKeyStageRecord (StartKeyStageRecord NewProgressReporter ''load'' 0) ''parse'' 1)
          ''load'' 2500000000 = Inr p2
        \<and> ks p2 ''load'' = Some st \<and> count st = 1 \<and> minDuration st = 2500000000
        \<and> maxDuration st = 2500000000 \<and> stage_totalDuration st = 2500000000)"
proof -
  have h1: "ks NewProgressReporter ''load'' = None"
    by (simp add: NewProgressReporter_def)
  have h2: "\<forall>c\<in>set [(CallStartKeyStage ''parse'', 1)]. \<not> mentions ''load'' c"
    by simp
  have h3: "run_reporter (StartKeyStageRecord NewProgressReporter ''load'' 0)
         [(CallStartKeyStage ''parse'', 1)] =
       Inr (StartKeyStageRecord (StartKeyStageRecord NewProgressReporter ''load'' 0) ''parse'' 1)"
    by simp
  have h4: "(0::int) \<le> 2500000000"
    by simp
  have d: "Sub 2500000000 0 = 2500000000"
    by (simp add: Sub_def)
  show ?thesis
    using h1 h2 h3 single_pair_statistics [OF h1 h2 h3 h4] by (auto simp add: d)
qed

text \<open>
  C10. After any run of calls that returned and never started the stage \<open>nm\<close>, the map
  has no entry for it, and \<^verbatim>\<open>EndKeyStageRecord\<close> of it panics on the nil pointer with the
  reporter as it was: no statistics are updated.
\<close>

theorem EndKeyStageRecord_never_started:
  assumes "run_reporter NewProgressReporter cs = Inr p"
    and "\<forall>c\<in>set cs. \<not> starts nm c"
  shows "ks p nm = None \<and> EndKeyStageRecord p nm now = Inl (NilPointerDereference, p)"
proof -
  have "ks NewProgressReporter nm = None"
    by (simp add: NewProgressReporter_def)
  then have "ks p nm = None"
    using assms by (rule run_never_started [rotated 2])
  then show ?thesis
    by (simp add: End_none)
qed

theorem EndKeyStageRecord_never_started_witness:
  "run_reporter NewProgressReporter [(CallStartKeyStage ''parse'', 1)] =
     Inr (StartKeyStageRecord NewProgressReporter ''parse'' 1)
   \<and> \<not> starts ''load'' (CallStartKeyStage ''parse'', 1)
   \<and> EndKeyStageRecord (StartKeyStageRecord NewProgressReporter ''parse'' 1) ''load'' 5 =
       Inl (NilPointerDereference, StartKeyStageRecord NewProgressReporter ''parse'' 1)"
proof -
  have h1: "run_reporter NewProgressReporter [(CallStartKeyStage ''parse'', 1)] =
     Inr (StartKeyStageRecord NewProgressReporter ''parse'' 1)"
    by simp
  have h2: "\<forall>c\<in>set [(CallStartKeyStage ''parse'', 1)]. \<not> starts ''load'' c"
    by simp
  show ?thesis
    using h1 h2 EndKeyStageRecord_never_started [OF h1 h2, of 5] by simp
qed

lemma map_filter_all_present:
  "\<forall>k\<in>set order. m k \<noteq> None \<Longrightarrow>
     List.map_filter (\<lambda>k. map_option (g k) (m k)) order = map (\<lambda>k. g k (the (m k))) order"
  by (induction order) auto

text \<open>
  C9, as the code has it. With the keys in the order the iteration yields them,
  \<^verbatim>\<open>Report\<close> writes the line \<^verbatim>\<open>Total duration: N s\<close>, with \<open>N\<close> the overall duration divided
  by a second and truncated, and then one line for each stage: a tab, a space,
  \<^verbatim>\<open>Key: name, Count: c, Total duration: T s, Max duration: Mx s, Min duration: Mn s\<close>, the
  three durations truncated in the same way. There are as many stage lines as stages, and
  none when no stage was recorded.
\<close>

theorem Report_lines:
  assumes "iteration_of p order"
  shows "Report p order =
           (''Total duration: '' @ fmt_d (sint (totalDuration p) sdiv 1000000000) @ '' s''
              @ newline)
           # map (\<lambda>k. [CHR 0x09] @ '' Key: '' @ k
                    @ '', Count: '' @ fmt_d (sint (count (the (ks p k))))
                    @ '', Total duration: ''
                    @ fmt_d (sint (stage_totalDuration (the (ks p k))) sdiv 1000000000)
                    @ '' s, Max duration: ''
                    @ fmt_d (sint (maxDuration (the (ks p k))) sdiv 1000000000)
                    @ '' s, Min duration: ''
                    @ fmt_d (sint (minDuration (the (ks p k))) sdiv 1000000000)
                    @ '' s'' @ newline) order
       \<and> length (Report p order) = 1 + card (dom (ks p))
       \<and> (dom (ks p) = {} \<longrightarrow>
            Report p order =
              [''Total duration: '' @ fmt_d (sint (totalDuration p) sdiv 1000000000) @ '' s''
                 @ newline])"
proof -
  have present: "\<forall>k\<in>set order. ks p k \<noteq> None"
    using assms by (auto simp add: iteration_of_def)
  have len: "length order = card (dom (ks p))"
    using assms distinct_card [of order] by (simp add: iteration_of_def)
  have empty: "dom (ks p) = {} \<Longrightarrow> order = []"
    using assms by (simp add: iteration_of_def)
  have lines: "Report p order = total_line p # map (\<lambda>k. stage_line k (the (ks p k))) order"
    by (simp add: Report_def map_filter_all_present [OF present])
  have c1: "Report p order =
           (''Total duration: '' @ fmt_d (sint (totalDuration p) sdiv 1000000000) @ '' s''
              @ newline)
           # map (\<lambda>k. [CHR 0x09] @ '' Key: '' @ k
                    @ '', Count: '' @ fmt_d (sint (count (the (ks p k))))
                    @ '', Total duration: ''
                    @ fmt_d (sint (stage_totalDuration (the (ks p k))) sdiv 1000000000)
                    @ '' s, Max duration: ''
                    @ fmt_d (sint (maxDuration (the (ks p k))) sdiv 1000000000)
                    @ '' s, Min duration: ''
                    @ fmt_d (sint (minDuration (the (ks p k))) sdiv 1000000000)
                    @ '' s'' @ newline) order"
    by (simp add: lines total_line_def stage_line_def seconds_of_def Second_def)
  have c2: "length (Report p order) = 1 + card (dom (ks p))"
    by (simp add: lines len)
  have c3: "dom (ks p) = {} \<longrightarrow>
            Report p order =
              [''Total duration: '' @ fmt_d (sint (totalDuration p) sdiv 1000000000) @ '' s''
                 @ newline]"
    using empty c1 by auto
  show ?thesis
    using c1 c2 c3 by blast
qed


lemmas eval_fmt = fmt_d_def digits.simps digit_def seconds_of_def Second_def
  signed_divide_int_def

text \<open>The reporter after one stage \<^verbatim>\<open>a\<close> that took two and a half seconds.\<close>

lemma run_one_stage:
  "run_reporter NewProgressReporter
     [(CallStartKeyStage ''a'', 0), (CallEndKeyStage ''a'', 2500000000)] =
   Inr \<lparr>reporter_startTime = 0, reporter_endTime = 0, totalDuration = 0,
          ks = [''a'' \<mapsto> \<lparr>name = ''a'', stage_totalDuration = 2500000000, count = 1,
                           maxDuration = 2500000000, minDuration = 2500000000,
                           stage_startTime = 0, stage_endTime = 2500000000\<rparr>]\<rparr>"
  by (simp add: NewProgressReporter_def StartKeyStageRecord_def EndKeyStageRecord_def
      new_keyStage_def Let_def Sub_def word_sless_alt)

lemma Report_one_stage:
  "Report \<lparr>reporter_startTime = 0, reporter_endTime = 0, totalDuration = 0,
          ks = [''a'' \<mapsto> \<lparr>name = ''a'', stage_totalDuration = 2500000000, count = 1,
                           maxDuration = 2500000000, minDuration = 2500000000,
                           stage_startTime = 0, stage_endTime = 2500000000\<rparr>]\<rparr> [''a''] =
     [''Total duration: 0 s'' @ newline,
      [CHR 0x09] @ '' Key: a, Count: 1, Total duration: 2 s, Max duration: 2 s, Min duration: 2 s''
        @ newline]"
  by (simp add: Report_def total_line_def stage_line_def eval_fmt)

theorem Report_lines_witness:
  "iteration_of \<lparr>reporter_startTime = 0, reporter_endTime = 0, totalDuration = 0,
          ks = [''a'' \<mapsto> \<lparr>name = ''a'', stage_totalDuration = 2500000000, count = 1,
                           maxDuration = 2500000000, minDuration = 2500000000,
                           stage_startTime = 0, stage_endTime = 2500000000\<rparr>]\<rparr> [''a'']
   \<and> Report \<lparr>reporter_startTime = 0, reporter_endTime = 0, totalDuration = 0,
          ks = [''a'' \<mapsto> \<lparr>name = ''a'', stage_totalDuration = 2500000000, count = 1,
                           maxDuration = 2500000000, minDuration = 2500000000,
                           stage_startTime = 0, stage_endTime = 2500000000\<rparr>]\<rparr> [''a''] =
     [''Total duration: 0 s'' @ newline,
      [CHR 0x09] @ '' Key: a, Count: 1, Total duration: 2 s, Max duration: 2 s, Min duration: 2 s''
        @ newline]
   \<and> length (Report \<lparr>reporter_startTime = 0, reporter_endTime = 0, totalDuration = 0,
          ks = [''a'' \<mapsto> \<lparr>name = ''a'', stage_totalDuration = 2500000000, count = 1,
                           maxDuration = 2500000000, minDuration = 2500000000,
                           stage_startTime = 0, stage_endTime = 2500000000\<rparr>]\<rparr> [''a'']) = 2"
proof -
  have h: "iteration_of \<lparr>reporter_startTime = 0, reporter_endTime = 0, totalDuration = 0,
          ks = [''a'' \<mapsto> \<lparr>name = ''a'', stage_totalDuration = 2500000000, count = 1,
                           maxDuration = 2500000000, minDuration = 2500000000,
                           stage_startTime = 0, stage_endTime = 2500000000\<rparr>]\<rparr> [''a'']"
    by (simp add: iteration_of_def)
  show ?thesis
    using h Report_lines [OF h] by (simp add: eval_fmt)
qed

text \<open>
  C9 as stated fails on the stage line: the source's format string has a space between
  the tab and \<^verbatim>\<open>Key:\<close>, so the line written for the stage \<^verbatim>\<open>a\<close> is not the line of the
  specification.
\<close>

theorem Report_stage_line_has_space:
  "run_reporter NewProgressReporter
     [(CallStartKeyStage ''a'', 0), (CallEndKeyStage ''a'', 2500000000)] =
   Inr \<lparr>reporter_startTime = 0, reporter_endTime = 0, totalDuration = 0,
          ks = [''a'' \<mapsto> \<lparr>name = ''a'', stage_totalDuration = 2500000000, count = 1,
                           maxDuration = 2500000000, minDuration = 2500000000,
                           stage_startTime = 0, stage_endTime = 2500000000\<rparr>]\<rparr>
   \<and> Report \<lparr>reporter_startTime = 0, reporter_endTime = 0, totalDuration = 0,
          ks = [''a'' \<mapsto> \<lparr>name = ''a'', stage_totalDuration = 2500000000, count = 1,
                           maxDuration = 2500000000, minDuration = 2500000000,
                           stage_startTime = 0, stage_endTime = 2500000000\<rparr>]\<rparr> [''a''] =
     [''Total duration: 0 s'' @ newline,
      [CHR 0x09] @ '' Key: a, Count: 1, Total duration: 2 s, Max duration: 2 s, Min duration: 2 s''
        @ newline]
   \<and> spec_stage_line ''a'' 1 2 2 2 =
       [CHR 0x09] @ ''Key: a, Count: 1, Total duration: 2 s, Max duration: 2 s, Min duration: 2 s''
   \<and> Report \<lparr>reporter_startTime = 0, reporter_endTime = 0, totalDuration = 0,
          ks = [''a'' \<mapsto> \<lparr>name = ''a'', stage_totalDuration = 2500000000, count = 1,
                           maxDuration = 2500000000, minDuration = 2500000000,
                           stage_startTime = 0, stage_endTime = 2500000000\<rparr>]\<rparr> [''a''] \<noteq> [''Total duration: 0 s'' @ newline, spec_stage_line ''a'' 1 2 2 2 @ newline]"
proof -
  have line: "spec_stage_line ''a'' 1 2 2 2 =
       [CHR 0x09] @ ''Key: a, Count: 1, Total duration: 2 s, Max duration: 2 s, Min duration: 2 s''"
    by (simp add: spec_stage_line_def eval_fmt)
  have differ: "Report \<lparr>reporter_startTime = 0, reporter_endTime = 0, totalDuration = 0,
          ks = [''a'' \<mapsto> \<lparr>name = ''a'', stage_totalDuration = 2500000000, count = 1,
                           maxDuration = 2500000000, minDuration = 2500000000,
                           stage_startTime = 0, stage_endTime = 2500000000\<rparr>]\<rparr> [''a''] \<noteq>
      [''Total duration: 0 s'' @ newline, spec_stage_line ''a'' 1 2 2 2 @ newline]"
    by (simp add: Report_one_stage line)
  from run_one_stage Report_one_stage line differ show ?thesis
    by (intro conjI)
qed

section \<open>Calls one after the other\<close>

text \<open>
  The count of a serial run of \<^verbatim>\<open>Increment\<close> calls: from a bar within its invariant with
  room for them, as many calls add as many units. (That concurrent callers are serial is
  the mutex's doing, which this development does not model.)
\<close>

lemma Increment_adds_one:
  assumes "0 \<le> sint (current pb)" "sint (current pb) < sint (total pb)"
  shows "sint (current (fst (Increment f2i pb now))) = sint (current pb) + 1
       \<and> total (fst (Increment f2i pb now)) = total pb"
proof -
  have up: "sint (total pb) \<le> 9223372036854775807"
    using sint_bounds [of "total pb"] by simp
  have sum: "sint (current pb + 1) = sint (current pb) + sint (1::go_int)"
    using assms up by (intro sint_add_in_range) simp_all
  show ?thesis
    using assms sum by (simp add: Increment_def IncrementBy_state word_sless_alt)
qed

lemma serial_increments_count:
  "0 \<le> sint (current pb) \<Longrightarrow> sint (current pb) + int (length ts) \<le> sint (total pb) \<Longrightarrow>
     sint (current (increments f2i pb ts)) = sint (current pb) + int (length ts)"
proof (induction ts arbitrary: pb)
  case Nil
  then show ?case by simp
next
  case (Cons now ts)
  have one: "sint (current (fst (Increment f2i pb now))) = sint (current pb) + 1"
    and tot: "total (fst (Increment f2i pb now)) = total pb"
    using Increment_adds_one [of pb f2i now] Cons.prems by simp_all
  have "sint (current (increments f2i (fst (Increment f2i pb now)) ts)) =
          sint (current (fst (Increment f2i pb now))) + int (length ts)"
    using Cons.prems one tot by (intro Cons.IH) simp_all
  then show ?case
    using one by simp
qed

end
